theory Spec2Isabelle
  imports Main "HOL-Library.Word"
begin

section \<open>The metrics-query handlers of pkg/api/metrics.go\<close>

text \<open>
  The handlers \<open>QueryMetricsV2\<close> (POST /api/ds/query), \<open>QueryMetrics\<close>
  (POST /api/tsdb/query) and \<open>GenerateError\<close> are embedded as functions over an
  explicit world state. Everything a handler calls that lives in another package
  (the data-source cache, the time-series executor, the expression evaluator, the
  configuration, simplejson) is a value or a field of the server record; every call of a
  collaborator is appended to the \<open>calls\<close> of the world, so that "is invoked" and
  "is never invoked" are statements about that list.
\<close>

subsection \<open>Values of other packages\<close>

type_synonym int64 = "64 word"

text \<open>
  Modelled from the spec: Go \<open>error\<close> values and the sentinel errors
  \<open>models.ErrDataSourceAccessDenied\<close> and \<open>models.ErrDataSourceNotFound\<close>, whose
  declarations are in package models. An error is represented by what the handlers
  observe of it: the text \<open>err.Error()\<close> returns, and the sentinel that
  \<open>errors.Is\<close> finds along its chain, if any.
\<close>

datatype sentinel = ErrDataSourceAccessDenied | ErrDataSourceNotFound

datatype go_error = GoError (Error_text: string) (unwraps_to: "sentinel option")

definition errors_Is :: "go_error \<Rightarrow> sentinel \<Rightarrow> bool" where
  "errors_Is err target = (unwraps_to err = Some target)"

text \<open>
  Modelled from the spec: the untyped parameter bag \<open>simplejson.Json\<close> of package
  components/simplejson, with the accessors the handlers use. \<open>Get\<close> of a key that is
  absent (or of a value that is no object) is the nil value; \<open>MustString\<close> and
  \<open>MustInt64\<close> fall back to the default when the value has another type;
  \<open>Int64\<close> returns an error then.
\<close>

datatype Json = JNil | JString string | JNumber int64 | JObject "(string \<times> Json) list"

fun Get :: "Json \<Rightarrow> string \<Rightarrow> Json" where
  "Get (JObject members) key = (case map_of members key of Some v \<Rightarrow> v | None \<Rightarrow> JNil)"
| "Get j key = JNil"

fun MustString :: "Json \<Rightarrow> string \<Rightarrow> string" where
  "MustString (JString s) def = s"
| "MustString j def = def"

fun Int64 :: "Json \<Rightarrow> go_error + int64" where
  "Int64 (JNumber n) = Inr n"
| "Int64 j = Inl (GoError ''invalid value type'' None)"

definition MustInt64 :: "Json \<Rightarrow> int64 \<Rightarrow> int64" where
  "MustInt64 j def = (case Int64 j of Inr n \<Rightarrow> n | Inl err \<Rightarrow> def)"

text \<open>
  Modelled from the spec: the records of packages models, dtos and tsdb that the handlers
  build and read (their declarations are outside the source at hand). The results of a
  \<open>tsdb.Response\<close> are a Go map from reference id to a pointer to the result. The
  entries of the map are listed here at fixed positions; the positions are storage only:
  a \<open>range\<close> over the map visits them in an order of the runtime's choosing (see
  \<open>range_Results\<close> below), and the handlers read the map in no other way.
\<close>

record DataSource =
  ds_Id :: int64
  ds_Type :: string

record ReqContext =
  SignedInUser :: string
  SkipCache :: bool
  Req_Context :: string

record MetricRequest =
  dto_From :: string
  dto_To :: string
  dto_Queries :: "Json list"
  dto_Debug :: bool

record TimeRange =
  tr_From :: string
  tr_To :: string

definition NewTimeRange :: "string \<Rightarrow> string \<Rightarrow> TimeRange" where
  "NewTimeRange from to = \<lparr>tr_From = from, tr_To = to\<rparr>"

record Query =
  RefId :: string
  MaxDataPoints :: int64
  IntervalMs :: int64
  QueryType :: string
  Model :: Json
  DataSource :: "DataSource option"

record TsdbQuery =
  TimeRange :: TimeRange
  Debug :: bool
  User :: string
  Queries :: "Query list"

record QueryResult =
  res_Error :: "go_error option"
  ErrorString :: string
  Payload :: string

record tsdb_Response =
  Results :: "(string \<times> QueryResult) list"
  Message :: string

subsection \<open>Responses\<close>

datatype body = TsdbBody tsdb_Response | StringBody string

text \<open>
  Modelled from the spec: the three response builders of package api, whose source is
  not at hand, as constructors: \<open>Error(status, message, err)\<close>, the buffered
  \<open>JSON(status, body)\<close> of the legacy path and the streamed
  \<open>jsonStreaming(status, body)\<close> of the current path. Each carries the status it
  was given as the transport status.
\<close>

datatype Response =
    Error int string "go_error option"
  | JSON int body
  | jsonStreaming int body


subsection \<open>The server, its collaborators and the world\<close>

text \<open>
  The server record holds what the handlers reach through \<open>hs\<close> and through package
  names: \<open>hs.DatasourceCache.GetDatasource\<close>, \<open>hs.Cfg.IsExpressionsEnabled()\<close>,
  \<open>tsdb.HandleRequest\<close>, \<open>expr.WrapTransformData\<close> and the constant
  \<open>expr.DatasourceName\<close>. A collaborator returns a Go pair (value, err) as a sum.
\<close>

record HTTPServer =
  expr_DatasourceName :: string
  GetDatasource :: "int64 \<Rightarrow> string \<Rightarrow> bool \<Rightarrow> go_error + DataSource"
  IsExpressionsEnabled :: bool
  tsdb_HandleRequest :: "string \<Rightarrow> DataSource option \<Rightarrow> TsdbQuery \<Rightarrow> go_error + tsdb_Response"
  expr_WrapTransformData :: "string \<Rightarrow> TsdbQuery \<Rightarrow> go_error + tsdb_Response"

datatype call =
    GetDatasource_call int64 string bool
  | HandleRequest_call string "DataSource option" TsdbQuery
  | WrapTransformData_call string TsdbQuery
  | IsExpressionsEnabled_call

fun is_resolver_call :: "call \<Rightarrow> bool" where
  "is_resolver_call (GetDatasource_call i u s) = True"
| "is_resolver_call x = False"

fun is_backend_call :: "call \<Rightarrow> bool" where
  "is_backend_call (HandleRequest_call ctx d r) = True"
| "is_backend_call (WrapTransformData_call ctx r) = True"
| "is_backend_call x = False"


text \<open>
  The world: the collaborator calls made so far (oldest first), the messages of
  \<open>hs.log.Debug\<close> (without their key-value context), what \<open>fmt.Printf\<close> wrote
  (format and argument), the clock: \<open>clock w n\<close> is what the \<open>n\<close>-th reading of
  \<open>time.Now()\<close> returns, in milliseconds, and the choices of the Go runtime for the
  iteration over maps: \<open>map_seeds w k\<close> decides the order in which the \<open>k\<close>-th
  \<open>range\<close> over a map visits its entries.
\<close>

record world =
  calls :: "call list"
  log :: "string list"
  stdout :: "(string \<times> int) list"
  clock :: "nat \<Rightarrow> int"
  reads :: nat
  map_seeds :: "nat \<Rightarrow> nat list"
  ranges :: nat

definition invoke :: "call \<Rightarrow> world \<Rightarrow> world" where
  "invoke x w = w\<lparr>calls := calls w @ [x]\<rparr>"

definition log_Debug :: "string \<Rightarrow> world \<Rightarrow> world" where
  "log_Debug msg w = w\<lparr>log := log w @ [msg]\<rparr>"

definition fmt_Printf :: "string \<Rightarrow> int \<Rightarrow> world \<Rightarrow> world" where
  "fmt_Printf format arg w = w\<lparr>stdout := stdout w @ [(format, arg)]\<rparr>"

definition time_Now :: "world \<Rightarrow> int \<times> world" where
  "time_Now w = (clock w (reads w), w\<lparr>reads := Suc (reads w)\<rparr>)"

definition time_Since :: "int \<Rightarrow> world \<Rightarrow> int \<times> world" where
  "time_Since start w = (clock w (reads w) - start, w\<lparr>reads := Suc (reads w)\<rparr>)"

subsection \<open>Ranging over a map\<close>

text \<open>
  Go does not specify the order in which \<open>range\<close> visits the entries of a map, and
  the runtime varies it from one loop to the next. A loop visits every entry once. The
  order is computed here from the seed the world holds for that loop: \<open>shuffle\<close>
  places each element at the position its seed names among the elements after it, so
  that the empty seed gives the positions in storage order and the seed \<open>[5, 3]\<close>
  reverses three of them (5 mod 3 = 2 puts the first one last, 3 mod 2 = 1 puts the
  second one after the third).
\<close>

definition insert_at :: "nat \<Rightarrow> 'a \<Rightarrow> 'a list \<Rightarrow> 'a list" where
  "insert_at k x ys = take k ys @ x # drop k ys"

fun shuffle :: "nat list \<Rightarrow> 'a list \<Rightarrow> 'a list" where
  "shuffle [] xs = xs"
| "shuffle (s # seeds) [] = []"
| "shuffle (s # seeds) (x # xs) = insert_at (s mod Suc (length xs)) x (shuffle seeds xs)"

definition visit_order :: "nat list \<Rightarrow> nat \<Rightarrow> nat list" where
  "visit_order seed n = shuffle seed [0..<n]"

text \<open>
  \<open>range resp.Results\<close>: the positions of the entries in the order of this loop, and
  the world in which the runtime has made one more choice.
\<close>

definition range_Results :: "tsdb_Response \<Rightarrow> world \<Rightarrow> nat list \<times> world" where
  "range_Results resp w =
     (visit_order (map_seeds w (ranges w)) (length (Results resp)), w\<lparr>ranges := Suc (ranges w)\<rparr>)"

subsection \<open>The status loop shared by both handlers\<close>

text \<open>
  \<^verbatim>\<open>for _, res := range resp.Results { if res.Error != nil { res.ErrorString =
  res.Error.Error(); resp.Message = res.ErrorString; statusCode = 400 } }\<close>
  The loop takes the positions still to visit, the results, and the current
  \<open>statusCode\<close> and \<open>resp.Message\<close>. \<open>res\<close> is a pointer, so the assignment to
  \<open>res.ErrorString\<close> changes the result stored in the map, at its position. Every
  position the loop is given comes from \<open>range_Results\<close> and is in range.
\<close>

fun status_loop ::
  "nat list \<Rightarrow> (string \<times> QueryResult) list \<Rightarrow> int \<Rightarrow> string
   \<Rightarrow> (string \<times> QueryResult) list \<times> int \<times> string" where
  "status_loop [] results statusCode message = (results, statusCode, message)"
| "status_loop (i # rest) results statusCode message =
     (let (refId, res) = results ! i
      in case res_Error res of
           None \<Rightarrow> status_loop rest results statusCode message
         | Some err \<Rightarrow>
             (let res = res\<lparr>ErrorString := Error_text err\<rparr>
              in status_loop rest (results[i := (refId, res)]) 400 (ErrorString res)))"

text \<open>\<open>statusCode := 200\<close> and the loop, in the order the runtime chooses.\<close>

definition aggregate :: "tsdb_Response \<Rightarrow> world \<Rightarrow> (int \<times> tsdb_Response) \<times> world" where
  "aggregate resp w =
     (let (order, w) = range_Results resp w;
          (results, statusCode, message) = status_loop order (Results resp) 200 (Message resp)
      in ((statusCode, resp\<lparr>Results := results, Message := message\<rparr>), w))"

subsection \<open>QueryMetricsV2\<close>

definition v2_query :: "Json \<Rightarrow> DataSource option \<Rightarrow> Query" where
  "v2_query query ds =
     \<lparr>RefId = MustString (Get query ''refId'') ''A'',
      MaxDataPoints = MustInt64 (Get query ''maxDataPoints'') 100,
      IntervalMs = MustInt64 (Get query ''intervalMs'') 1000,
      QueryType = MustString (Get query ''queryType'') [],
      Model = query,
      DataSource = ds\<rparr>"

text \<open>
  The loop over \<open>reqDTO.Queries\<close> (lines 38 to 73), with the index \<open>i\<close> and the
  variables \<open>hasExpr\<close>, \<open>ds\<close> and \<open>request\<close> it updates. \<open>Inl\<close> is a
  \<open>return\<close> from inside the loop.
\<close>

fun v2_loop ::
  "HTTPServer \<Rightarrow> ReqContext \<Rightarrow> nat \<Rightarrow> Json list \<Rightarrow> bool \<Rightarrow> DataSource option \<Rightarrow> TsdbQuery \<Rightarrow> world
   \<Rightarrow> (Response + bool \<times> DataSource option \<times> TsdbQuery) \<times> world" where
  "v2_loop hs c i [] hasExpr ds request w = (Inr (hasExpr, ds, request), w)"
| "v2_loop hs c i (query # rest) hasExpr ds request w =
     (let w = log_Debug ''Processing metrics query'' w;
          name = MustString (Get query ''datasource'') [];
          hasExpr = (if name = expr_DatasourceName hs then True else hasExpr)
      in case Int64 (Get query ''datasourceId'') of
           Inl err \<Rightarrow>
             (Inl (Error 400 ''Query missing data source ID'' None),
              log_Debug ''Can't process query since it's missing data source ID'' w)
         | Inr datasourceID \<Rightarrow>
             if i = 0 \<and> \<not> hasExpr then
               (let w = invoke (GetDatasource_call datasourceID (SignedInUser c) (SkipCache c)) w
                in case GetDatasource hs datasourceID (SignedInUser c) (SkipCache c) of
                     Inl err \<Rightarrow>
                       (let w = log_Debug ''Encountered error getting data source'' w
                        in if errors_Is err ErrDataSourceAccessDenied then
                             (Inl (Error 403 ''Access denied to data source'' (Some err)), w)
                           else if errors_Is err ErrDataSourceNotFound then
                             (Inl (Error 400 ''Invalid data source ID'' (Some err)), w)
                           else
                             (Inl (Error 500 ''Unable to load data source metadata'' (Some err)), w))
                   | Inr ds \<Rightarrow>
                       v2_loop hs c (Suc i) rest hasExpr (Some ds)
                         (request\<lparr>Queries := Queries request @ [v2_query query (Some ds)]\<rparr>) w)
             else
               v2_loop hs c (Suc i) rest hasExpr ds
                 (request\<lparr>Queries := Queries request @ [v2_query query ds]\<rparr>) w)"

text \<open>Lines 98 to 107: the status loop and the streamed response.\<close>

definition v2_respond :: "tsdb_Response \<Rightarrow> world \<Rightarrow> Response \<times> world" where
  "v2_respond resp w =
     (let ((statusCode, resp), w) = aggregate resp w
      in (jsonStreaming statusCode (TsdbBody resp), w))"

definition QueryMetricsV2 :: "HTTPServer \<Rightarrow> ReqContext \<Rightarrow> MetricRequest \<Rightarrow> world \<Rightarrow> Response \<times> world" where
  "QueryMetricsV2 hs c reqDTO w =
     (if length (dto_Queries reqDTO) = 0 then (Error 400 ''No queries found in query'' None, w)
      else
        let (start, w) = time_Now w;
            request = \<lparr>TimeRange = NewTimeRange (dto_From reqDTO) (dto_To reqDTO),
                       Debug = dto_Debug reqDTO, User = SignedInUser c, Queries = []\<rparr>
        in case v2_loop hs c 0 (dto_Queries reqDTO) False None request w of
             (Inl response, w) \<Rightarrow> (response, w)
           | (Inr (hasExpr, ds, request), w) \<Rightarrow>
               let (spent, w) = time_Since start w;
                   w = fmt_Printf (CHR 0x0A # ''Time spent pre-processing queries: %d'' @ [CHR 0x0A, CHR 0x0A]) spent w;
                   (start, w) = time_Now w
               in if \<not> hasExpr then
                    (let w = invoke (HandleRequest_call (Req_Context c) ds request) w
                     in case tsdb_HandleRequest hs (Req_Context c) ds request of
                          Inl err \<Rightarrow> (Error 500 ''Metric request error'' (Some err), w)
                        | Inr resp \<Rightarrow>
                            let (spent, w) = time_Since start w;
                                w = fmt_Printf (CHR 0x0A # ''Time spent handling request: %d'' @ [CHR 0x0A, CHR 0x0A]) spent w
                            in v2_respond resp w)
                  else
                    (let w = invoke IsExpressionsEnabled_call w
                     in if \<not> IsExpressionsEnabled hs then
                          (Error 404 ''Expressions feature toggle is not enabled'' None, w)
                        else
                          let w = invoke (WrapTransformData_call (Req_Context c) request) w
                          in case expr_WrapTransformData hs (Req_Context c) request of
                               Inl err \<Rightarrow> (Error 500 ''Transform request error'' (Some err), w)
                             | Inr resp \<Rightarrow> v2_respond resp w))"

subsection \<open>QueryMetrics\<close>

definition legacy_query :: "Json \<Rightarrow> DataSource option \<Rightarrow> Query" where
  "legacy_query query ds =
     \<lparr>RefId = MustString (Get query ''refId'') ''A'',
      MaxDataPoints = MustInt64 (Get query ''maxDataPoints'') 100,
      IntervalMs = MustInt64 (Get query ''intervalMs'') 1000,
      QueryType = [],
      Model = query,
      DataSource = ds\<rparr>"

text \<open>The loop of lines 138 to 146.\<close>

fun legacy_loop :: "Json list \<Rightarrow> DataSource option \<Rightarrow> TsdbQuery \<Rightarrow> TsdbQuery" where
  "legacy_loop [] ds request = request"
| "legacy_loop (query # rest) ds request =
     legacy_loop rest ds (request\<lparr>Queries := Queries request @ [legacy_query query ds]\<rparr>)"

text \<open>
  \<open>reqDto.Queries[0]\<close> is read after the length check, so the index is in range
  wherever it is evaluated.
\<close>

definition QueryMetrics :: "HTTPServer \<Rightarrow> ReqContext \<Rightarrow> MetricRequest \<Rightarrow> world \<Rightarrow> Response \<times> world" where
  "QueryMetrics hs c reqDto w =
     (let timeRange = NewTimeRange (dto_From reqDto) (dto_To reqDto)
      in if length (dto_Queries reqDto) = 0 then (Error 400 ''No queries found in query'' None, w)
         else
           case Int64 (Get (dto_Queries reqDto ! 0) ''datasourceId'') of
             Inl err \<Rightarrow> (Error 400 ''Query missing datasourceId'' None, w)
           | Inr datasourceId \<Rightarrow>
               (let w = invoke (GetDatasource_call datasourceId (SignedInUser c) (SkipCache c)) w
                in case GetDatasource hs datasourceId (SignedInUser c) (SkipCache c) of
                     Inl err \<Rightarrow>
                       (if errors_Is err ErrDataSourceAccessDenied then
                          (Error 403 ''Access denied to datasource'' (Some err), w)
                        else (Error 500 ''Unable to load datasource meta data'' (Some err), w))
                   | Inr ds \<Rightarrow>
                       (let request = \<lparr>TimeRange = timeRange, Debug = dto_Debug reqDto,
                                       User = SignedInUser c, Queries = []\<rparr>;
                            request = legacy_loop (dto_Queries reqDto) (Some ds) request;
                            w = invoke (HandleRequest_call (Req_Context c) (Some ds) request) w
                        in case tsdb_HandleRequest hs (Req_Context c) (Some ds) request of
                             Inl err \<Rightarrow> (Error 500 ''Metric request error'' (Some err), w)
                           | Inr resp \<Rightarrow>
                               (let ((statusCode, resp), w) = aggregate resp w
                                in (JSON statusCode (TsdbBody resp), w)))))"

subsection \<open>GenerateError\<close>

text \<open>
  A Go index expression panics when the index is out of range; \<open>index_at\<close> returns
  \<open>None\<close> there, and the handler's panic is the \<open>Inl\<close> branch.
\<close>

datatype panic = index_out_of_range int nat

definition index_at :: "'a list \<Rightarrow> int \<Rightarrow> 'a option" where
  "index_at xs i = (if 0 \<le> i \<and> i < int (length xs) then Some (xs ! nat i) else None)"

definition GenerateError :: "ReqContext \<Rightarrow> panic + Response" where
  "GenerateError c =
     (let array = ([] :: string list)
      in case index_at array 20 of
           None \<Rightarrow> Inl (index_out_of_range 20 (length array))
         | Some v \<Rightarrow> Inr (JSON 200 (StringBody v)))"

subsection \<open>Vocabulary of the properties\<close>

text \<open>
  The conditions the handlers test, named: a sub-query carries a data-source identifier
  when \<open>query.Get("datasourceId").Int64()\<close> returns no error; it names the expression
  engine when \<open>query.Get("datasource").MustString("")\<close> equals
  \<open>expr.DatasourceName\<close>; a result carries an error when \<open>res.Error != nil\<close>.
  \<open>stringified\<close> is a result after the status loop has visited it, \<open>visited\<close>
  the results after the loop has visited the given positions, \<open>next_order\<close> the order
  in which the next \<open>range\<close> of a world visits the results of a response, and
  \<open>aggregated\<close> a response after the loop has visited every position once in the
  given order. \<open>without_message\<close> is a response with the aggregate message of its
  body blanked. \<open>v2_request\<close> and
  \<open>legacy_request\<close> are the requests in which one data source is attached to every
  sub-query. \<open>resolution_fails\<close> says that \<open>QueryMetricsV2\<close> resolves the data
  source of the sub-query at index 0 and gets an error.
\<close>

definition has_id :: "Json \<Rightarrow> bool" where
  "has_id query = (case Int64 (Get query ''datasourceId'') of Inl err \<Rightarrow> False | Inr n \<Rightarrow> True)"

definition names_expr :: "HTTPServer \<Rightarrow> Json \<Rightarrow> bool" where
  "names_expr hs query = (MustString (Get query ''datasource'') [] = expr_DatasourceName hs)"

definition has_error :: "string \<times> QueryResult \<Rightarrow> bool" where
  "has_error kr = (case res_Error (snd kr) of None \<Rightarrow> False | Some err \<Rightarrow> True)"

definition stringified :: "string \<times> QueryResult \<Rightarrow> string \<times> QueryResult" where
  "stringified kr =
     (case res_Error (snd kr) of None \<Rightarrow> kr
      | Some err \<Rightarrow> (fst kr, (snd kr)\<lparr>ErrorString := Error_text err\<rparr>))"

definition error_text_of :: "string \<times> QueryResult \<Rightarrow> string" where
  "error_text_of kr = (case res_Error (snd kr) of None \<Rightarrow> [] | Some err \<Rightarrow> Error_text err)"

definition v2_request :: "ReqContext \<Rightarrow> MetricRequest \<Rightarrow> DataSource option \<Rightarrow> TsdbQuery" where
  "v2_request c req ds =
     \<lparr>TimeRange = NewTimeRange (dto_From req) (dto_To req), Debug = dto_Debug req,
      User = SignedInUser c, Queries = map (\<lambda>q. v2_query q ds) (dto_Queries req)\<rparr>"

definition legacy_request :: "ReqContext \<Rightarrow> MetricRequest \<Rightarrow> DataSource option \<Rightarrow> TsdbQuery" where
  "legacy_request c req ds =
     \<lparr>TimeRange = NewTimeRange (dto_From req) (dto_To req), Debug = dto_Debug req,
      User = SignedInUser c, Queries = map (\<lambda>q. legacy_query q ds) (dto_Queries req)\<rparr>"

definition visited :: "nat list \<Rightarrow> (string \<times> QueryResult) list \<Rightarrow> (string \<times> QueryResult) list" where
  "visited order rs =
     map (\<lambda>j. if j \<in> set order then stringified (rs ! j) else rs ! j) [0..<length rs]"

definition next_order :: "world \<Rightarrow> tsdb_Response \<Rightarrow> nat list" where
  "next_order w resp = visit_order (map_seeds w (ranges w)) (length (Results resp))"

definition aggregated :: "nat list \<Rightarrow> tsdb_Response \<Rightarrow> tsdb_Response" where
  "aggregated order resp =
     resp\<lparr>Results := map stringified (Results resp),
          Message := (if list_ex has_error (Results resp)
                      then error_text_of
                             (Results resp ! last (filter (\<lambda>i. has_error (Results resp ! i)) order))
                      else Message resp)\<rparr>"

fun without_message :: "Response \<Rightarrow> Response" where
  "without_message (JSON status (TsdbBody resp)) = JSON status (TsdbBody (resp\<lparr>Message := []\<rparr>))"
| "without_message (jsonStreaming status (TsdbBody resp)) =
     jsonStreaming status (TsdbBody (resp\<lparr>Message := []\<rparr>))"
| "without_message response = response"


definition resolution_fails :: "HTTPServer \<Rightarrow> ReqContext \<Rightarrow> Json \<Rightarrow> bool" where
  "resolution_fails hs c query =
     (case Int64 (Get query ''datasourceId'') of
        Inl err \<Rightarrow> False
      | Inr n \<Rightarrow>
          (if names_expr hs query then False
           else (case GetDatasource hs n (SignedInUser c) (SkipCache c) of
                   Inl err \<Rightarrow> True | Inr d \<Rightarrow> False)))"

subsection \<open>Example inputs\<close>

text \<open>
  A server whose cache knows data source 1, denies access to 2, does not find 3 and fails
  otherwise, whose expressions toggle is off and whose executors return three results, the
  first and the last with an error; the same server with an executor whose one result has
  no error; worlds that differ in clock, history and the order of the next map iteration;
  and some sub-queries.
\<close>

definition example_ds :: DataSource where
  "example_ds = \<lparr>ds_Id = 1, ds_Type = ''prometheus''\<rparr>"

definition example_response :: tsdb_Response where
  "example_response =
     \<lparr>Results =
        [(''A'', \<lparr>res_Error = Some (GoError ''first failure'' None), ErrorString = [], Payload = []\<rparr>),
         (''B'', \<lparr>res_Error = None, ErrorString = [], Payload = ''series''\<rparr>),
         (''C'', \<lparr>res_Error = Some (GoError ''last failure'' None), ErrorString = [], Payload = []\<rparr>)],
      Message = []\<rparr>"

definition example_server :: HTTPServer where
  "example_server =
     \<lparr>expr_DatasourceName = ''__expr__'',
      GetDatasource = (\<lambda>n user skipCache.
         if n = 1 then Inr example_ds
         else if n = 2 then Inl (GoError ''access denied'' (Some ErrDataSourceAccessDenied))
         else if n = 3 then Inl (GoError ''not found'' (Some ErrDataSourceNotFound))
         else Inl (GoError ''cache unavailable'' None)),
      IsExpressionsEnabled = False,
      tsdb_HandleRequest = (\<lambda>ctx ds request. Inr example_response),
      expr_WrapTransformData = (\<lambda>ctx request. Inr example_response)\<rparr>"

definition example_context :: ReqContext where
  "example_context = \<lparr>SignedInUser = ''admin'', SkipCache = False, Req_Context = ''ctx''\<rparr>"

definition example_world :: world where
  "example_world = \<lparr>calls = [], log = [], stdout = [], clock = (\<lambda>n. 5 * int n), reads = 0,
     map_seeds = (\<lambda>k. []), ranges = 0\<rparr>"


definition reversed_world :: world where
  "reversed_world = \<lparr>calls = [], log = [], stdout = [], clock = (\<lambda>n. 5 * int n), reads = 0,
     map_seeds = (\<lambda>k. [5, 3]), ranges = 0\<rparr>"


definition query_A :: Json where
  "query_A = JObject [(''refId'', JString ''A''), (''datasource'', JString ''prometheus''),
     (''datasourceId'', JNumber 1)]"

definition query_B :: Json where
  "query_B = JObject [(''refId'', JString ''B''), (''datasource'', JString ''prometheus''),
     (''datasourceId'', JNumber 7)]"

definition query_C :: Json where
  "query_C = JObject [(''refId'', JString ''C''), (''datasource'', JString ''prometheus''),
     (''datasourceId'', JNumber 1)]"

definition query_denied :: Json where
  "query_denied = JObject [(''refId'', JString ''A''), (''datasource'', JString ''prometheus''),
     (''datasourceId'', JNumber 2)]"

definition query_unknown :: Json where
  "query_unknown = JObject [(''refId'', JString ''A''), (''datasource'', JString ''prometheus''),
     (''datasourceId'', JNumber 3)]"

definition query_expression :: Json where
  "query_expression = JObject [(''refId'', JString ''E''), (''datasource'', JString ''__expr__''),
     (''datasourceId'', JNumber (- 100))]"

definition query_no_id :: Json where
  "query_no_id = JObject [(''refId'', JString ''C''), (''datasource'', JString ''prometheus'')]"

definition expression_no_id :: Json where
  "expression_no_id = JObject [(''refId'', JString ''E''), (''datasource'', JString ''__expr__'')]"

definition example_request :: "Json list \<Rightarrow> MetricRequest" where
  "example_request qs = \<lparr>dto_From = ''now-1h'', dto_To = ''now'', dto_Queries = qs, dto_Debug = False\<rparr>"

definition healthy_response :: tsdb_Response where
  "healthy_response =
     \<lparr>Results = [(''A'', \<lparr>res_Error = None, ErrorString = [], Payload = ''series''\<rparr>)], Message = []\<rparr>"

definition healthy_server :: HTTPServer where
  "healthy_server = example_server\<lparr>tsdb_HandleRequest := (\<lambda>ctx ds request. Inr healthy_response)\<rparr>"



section \<open>Properties\<close>

subsection \<open>What each step does to the calls and to the next map iteration\<close>

lemma calls_invoke [simp]: "calls (invoke x w) = calls w @ [x]"
  by (simp add: invoke_def)
lemma calls_log_Debug [simp]: "calls (log_Debug m w) = calls w"
  by (simp add: log_Debug_def)
lemma calls_fmt_Printf [simp]: "calls (fmt_Printf f a w) = calls w"
  by (simp add: fmt_Printf_def)
lemma calls_time_Now [simp]: "calls (snd (time_Now w)) = calls w"
  by (simp add: time_Now_def)
lemma calls_time_Since [simp]: "calls (snd (time_Since t w)) = calls w"
  by (simp add: time_Since_def)

lemma next_order_invoke [simp]: "next_order (invoke x w) resp = next_order w resp"
  by (simp add: invoke_def next_order_def)
lemma next_order_log_Debug [simp]: "next_order (log_Debug m w) resp = next_order w resp"
  by (simp add: log_Debug_def next_order_def)
lemma next_order_fmt_Printf [simp]: "next_order (fmt_Printf f a w) resp = next_order w resp"
  by (simp add: fmt_Printf_def next_order_def)
lemma next_order_time_Now [simp]: "next_order (snd (time_Now w)) resp = next_order w resp"
  by (simp add: time_Now_def next_order_def)
lemma next_order_time_Since [simp]: "next_order (snd (time_Since t w)) resp = next_order w resp"
  by (simp add: time_Since_def next_order_def)

subsection \<open>The order of a map iteration is a permutation of the positions\<close>

lemma set_insert_at: "set (insert_at k x ys) = insert x (set ys)"
proof -
  have "set (take k ys) \<union> set (drop k ys) = set ys"
    by (metis append_take_drop_id set_append)
  then show ?thesis by (auto simp: insert_at_def)
qed

lemma length_insert_at: "length (insert_at k x ys) = Suc (length ys)"
  by (simp add: insert_at_def)

lemma set_shuffle: "set (shuffle seed xs) = set xs"
  by (induction seed xs rule: shuffle.induct) (simp_all add: set_insert_at)

lemma length_shuffle: "length (shuffle seed xs) = length xs"
  by (induction seed xs rule: shuffle.induct) (simp_all add: length_insert_at)

lemma distinct_insert_at:
  assumes "distinct ys" and "x \<notin> set ys"
  shows "distinct (insert_at k x ys)"
proof -
  have disj: "set (take k ys) \<inter> set (drop k ys) = {}"
    using assms(1) by (rule set_take_disj_set_drop_if_distinct) simp
  have nx: "x \<notin> set (take k ys)" "x \<notin> set (drop k ys)"
    using assms(2) in_set_takeD in_set_dropD by fastforce+
  have d: "distinct (take k ys)" "distinct (drop k ys)"
    using assms(1) by simp_all
  show ?thesis
    unfolding insert_at_def distinct_append distinct.simps set_simps
    using disj nx d by blast
qed

lemma distinct_shuffle: "distinct xs \<Longrightarrow> distinct (shuffle seed xs)"
  by (induction seed xs rule: shuffle.induct) (simp_all add: distinct_insert_at set_shuffle)

lemma set_visit_order: "set (visit_order seed n) = {..<n}"
  by (auto simp: visit_order_def set_shuffle)

lemma distinct_visit_order: "distinct (visit_order seed n)"
  by (simp add: visit_order_def distinct_shuffle)

subsection \<open>The status loop, whatever the order\<close>

lemma has_error_stringified [simp]: "has_error (stringified kr) = has_error kr"
  by (cases kr) (simp add: has_error_def stringified_def split: option.splits)

lemma error_text_stringified [simp]: "error_text_of (stringified kr) = error_text_of kr"
  by (cases kr) (simp add: error_text_of_def stringified_def split: option.splits)

lemma stringified_idem [simp]: "stringified (stringified kr) = stringified kr"
  by (cases kr) (simp add: stringified_def split: option.splits)

lemma status_loop_step:
  "status_loop (i # rest) rs s m =
     (if has_error (rs ! i)
      then status_loop rest (rs[i := stringified (rs ! i)]) 400 (error_text_of (rs ! i))
      else status_loop rest rs s m)"
  by (cases "rs ! i")
     (simp add: has_error_def stringified_def error_text_of_def split: option.splits)

lemma status_loop_eq:
  "set order \<subseteq> {..<length rs} \<Longrightarrow>
   status_loop order rs s m =
     (visited order rs,
      if list_ex (\<lambda>i. has_error (rs ! i)) order then 400 else s,
      if list_ex (\<lambda>i. has_error (rs ! i)) order
      then error_text_of (rs ! last (filter (\<lambda>i. has_error (rs ! i)) order)) else m)"
proof (induction order arbitrary: rs s m)
  case Nil
  show ?case by (simp add: visited_def map_nth)
next
  case (Cons i rest)
  let ?rs = "rs[i := stringified (rs ! i)]"
  let ?E = "\<lambda>j. has_error (rs ! j)"
  have i: "i < length rs" and rest: "set rest \<subseteq> {..<length rs}"
    using Cons.prems by auto
  have n1: "has_error (?rs ! j) = has_error (rs ! j)" if "j < length rs" for j
    using that i by (simp add: nth_list_update)
  have n2: "error_text_of (?rs ! j) = error_text_of (rs ! j)" if "j < length rs" for j
    using that i by (simp add: nth_list_update)
  have fl: "filter (\<lambda>j. has_error (?rs ! j)) rest = filter ?E rest"
    by (rule filter_cong) (use rest n1 in auto)
  have ex: "list_ex (\<lambda>j. has_error (?rs ! j)) rest = list_ex ?E rest"
    using rest n1 by (auto simp: list_ex_iff)
  have emp: "(filter ?E rest = []) = (\<not> list_ex ?E rest)"
    by (simp add: filter_empty_conv list_ex_iff)
  show ?case
  proof (cases "has_error (rs ! i)")
    case True
    have vis: "visited rest ?rs = visited (i # rest) rs"
      using i by (auto simp: visited_def nth_list_update)
    have step: "status_loop (i # rest) rs s m = status_loop rest ?rs 400 (error_text_of (rs ! i))"
      using True by (simp only: status_loop_step if_True)
    have ih: "status_loop rest ?rs 400 (error_text_of (rs ! i)) =
        (visited rest ?rs,
         if list_ex ?E rest then 400 else 400,
         if list_ex ?E rest
         then error_text_of (?rs ! last (filter ?E rest)) else error_text_of (rs ! i))"
      using Cons.IH [of ?rs 400 "error_text_of (rs ! i)"] rest by (simp add: fl ex)
    have msg: "list_ex ?E rest \<Longrightarrow>
        error_text_of (?rs ! last (filter ?E rest)) = error_text_of (rs ! last (filter ?E rest))"
    proof -
      assume "list_ex ?E rest"
      then have "filter ?E rest \<noteq> []" using emp by simp
      then have "last (filter ?E rest) \<in> set (filter ?E rest)" by (rule last_in_set)
      then have "last (filter ?E rest) < length rs" using rest by auto
      then show ?thesis by (rule n2)
    qed
    show ?thesis
    proof (cases "list_ex ?E rest")
      case yes: True
      then have "filter ?E rest \<noteq> []" using emp by simp
      then show ?thesis using True yes msg by (simp add: step ih vis del: status_loop.simps)
    next
      case no: False
      then have "filter ?E rest = []" using emp by simp
      then show ?thesis using True no by (simp add: step ih vis del: status_loop.simps)
    qed
  next
    case False
    have same: "stringified (rs ! i) = rs ! i"
      using False by (cases "rs ! i") (simp add: has_error_def stringified_def split: option.splits)
    have vis: "visited rest rs = visited (i # rest) rs"
      using same by (auto simp: visited_def)
    have step: "status_loop (i # rest) rs s m = status_loop rest rs s m"
      using False by (simp only: status_loop_step if_False)
    show ?thesis
      using False Cons.IH [of rs s m] rest by (simp add: step vis del: status_loop.simps)
  qed
qed

lemma visited_all:
  assumes "set order = {..<length rs}"
  shows "visited order rs = map stringified rs"
proof -
  have "visited order rs = map (\<lambda>j. stringified (rs ! j)) [0..<length rs]"
    unfolding visited_def by (rule map_cong) (use assms in auto)
  also have "\<dots> = map stringified (map (\<lambda>j. rs ! j) [0..<length rs])"
    by (simp add: comp_def)
  also have "\<dots> = map stringified rs"
    by (simp only: map_nth)
  finally show ?thesis .
qed

lemma any_error_order:
  assumes "set order = {..<length rs}"
  shows "list_ex (\<lambda>i. has_error (rs ! i)) order = list_ex has_error rs"
proof -
  have "(\<exists>i<length rs. has_error (rs ! i)) = (\<exists>kr\<in>set rs. has_error kr)"
    by (metis in_set_conv_nth)
  then show ?thesis using assms by (simp add: list_ex_iff Bex_def)
qed

lemma set_next_order: "set (next_order w resp) = {..<length (Results resp)}"
  by (simp add: next_order_def set_visit_order)

lemma distinct_next_order: "distinct (next_order w resp)"
  by (simp add: next_order_def distinct_visit_order)

lemma aggregate_eq:
  "aggregate resp w =
     ((if list_ex has_error (Results resp) then 400 else 200, aggregated (next_order w resp) resp),
      w\<lparr>ranges := Suc (ranges w)\<rparr>)"
proof -
  let ?order = "next_order w resp"
  have s: "set ?order = {..<length (Results resp)}" by (rule set_next_order)
  then have sub: "set ?order \<subseteq> {..<length (Results resp)}" by simp
  show ?thesis
    by (simp add: aggregate_def range_Results_def aggregated_def next_order_def [symmetric]
        status_loop_eq [OF sub] visited_all [OF s] any_error_order [OF s])
qed

lemma v2_respond_eq:
  "v2_respond resp w =
     (jsonStreaming (if list_ex has_error (Results resp) then 400 else 200)
        (TsdbBody (aggregated (next_order w resp) resp)),
      w\<lparr>ranges := Suc (ranges w)\<rparr>)"
  by (simp add: v2_respond_def aggregate_eq)

lemma last_error_visited:
  assumes "list_ex has_error (Results resp)"
  shows "Results resp ! last (filter (\<lambda>i. has_error (Results resp ! i)) (next_order w resp))
         \<in> set (filter has_error (Results resp))"
proof -
  let ?rs = "Results resp"
  let ?E = "\<lambda>i. has_error (?rs ! i)"
  let ?xs = "next_order w resp"
  have xs: "set ?xs = {..<length ?rs}" by (rule set_next_order)
  have "list_ex ?E ?xs" using assms any_error_order [OF xs] by simp
  then have "filter ?E ?xs \<noteq> []" by (simp add: filter_empty_conv list_ex_iff)
  then have "last (filter ?E ?xs) \<in> set (filter ?E ?xs)" by (rule last_in_set)
  then have "last (filter ?E ?xs) < length ?rs" and "?E (last (filter ?E ?xs))"
    using xs by auto
  then show ?thesis by simp
qed

lemma aggregated_without_message:
  "(aggregated order resp)\<lparr>Message := []\<rparr> = resp\<lparr>Results := map stringified (Results resp), Message := []\<rparr>"
  by (simp add: aggregated_def)


subsection \<open>The loop over the sub-queries after its first iteration\<close>

lemma v2_loop_tail_fst:
  "fst (v2_loop hs c (Suc i) qs h d r w) =
     (if list_all has_id qs
      then Inr (h \<or> list_ex (names_expr hs) qs, d, r\<lparr>Queries := Queries r @ map (\<lambda>q. v2_query q d) qs\<rparr>)
      else Inl (Error 400 ''Query missing data source ID'' None))"
  by (induction qs arbitrary: i h r w)
     (auto simp: has_id_def names_expr_def Let_def split: sum.splits)

lemma v2_loop_tail_calls: "calls (snd (v2_loop hs c (Suc i) qs h d r w)) = calls w"
  by (induction qs arbitrary: i h r w)
     (auto simp: Let_def split: sum.splits)

lemma v2_loop_tail_order:
  "next_order (snd (v2_loop hs c (Suc i) qs h d r w)) resp = next_order w resp"
  by (induction qs arbitrary: i h r w)
     (auto simp: Let_def split: sum.splits)

lemma legacy_loop_eq:
  "legacy_loop qs ds r = r\<lparr>Queries := Queries r @ map (\<lambda>q. legacy_query q ds) qs\<rparr>"
  by (induction qs arbitrary: r) simp_all

subsection \<open>QueryMetricsV2 on a non-empty batch, in closed form\<close>

text \<open>
  The response and the calls of \<open>QueryMetricsV2\<close> for a batch with first sub-query
  \<open>q\<close>, branch by branch as the source takes them.
\<close>


lemma v2_closed_fst:
  assumes "dto_Queries req = q # rest"
  shows "fst (QueryMetricsV2 hs c req w) =
     (case Int64 (Get q ''datasourceId'') of
        Inl e \<Rightarrow> Error 400 ''Query missing data source ID'' None
      | Inr n \<Rightarrow>
          if names_expr hs q then
            (if \<not> list_all has_id rest then Error 400 ''Query missing data source ID'' None
             else if \<not> IsExpressionsEnabled hs then
               Error 404 ''Expressions feature toggle is not enabled'' None
             else (case expr_WrapTransformData hs (Req_Context c) (v2_request c req None) of
                     Inl err \<Rightarrow> Error 500 ''Transform request error'' (Some err)
                   | Inr resp \<Rightarrow> fst (v2_respond resp w)))
          else
            (case GetDatasource hs n (SignedInUser c) (SkipCache c) of
               Inl err \<Rightarrow>
                 if errors_Is err ErrDataSourceAccessDenied then
                   Error 403 ''Access denied to data source'' (Some err)
                 else if errors_Is err ErrDataSourceNotFound then
                   Error 400 ''Invalid data source ID'' (Some err)
                 else Error 500 ''Unable to load data source metadata'' (Some err)
             | Inr d \<Rightarrow>
                 if \<not> list_all has_id rest then Error 400 ''Query missing data source ID'' None
                 else if \<not> list_ex (names_expr hs) rest then
                   (case tsdb_HandleRequest hs (Req_Context c) (Some d) (v2_request c req (Some d)) of
                      Inl err \<Rightarrow> Error 500 ''Metric request error'' (Some err)
                    | Inr resp \<Rightarrow> fst (v2_respond resp w))
                 else if \<not> IsExpressionsEnabled hs then
                   Error 404 ''Expressions feature toggle is not enabled'' None
                 else (case expr_WrapTransformData hs (Req_Context c) (v2_request c req (Some d)) of
                         Inl err \<Rightarrow> Error 500 ''Transform request error'' (Some err)
                       | Inr resp \<Rightarrow> fst (v2_respond resp w))))"
  using assms
  by (simp add: QueryMetricsV2_def v2_request_def names_expr_def Let_def split_beta
      v2_loop_tail_fst v2_loop_tail_order v2_respond_eq split: sum.splits)

lemma v2_closed_calls:
  assumes "dto_Queries req = q # rest"
  shows "calls (snd (QueryMetricsV2 hs c req w)) = calls w @
     (case Int64 (Get q ''datasourceId'') of
        Inl e \<Rightarrow> []
      | Inr n \<Rightarrow>
          if names_expr hs q then
            (if \<not> list_all has_id rest then []
             else if \<not> IsExpressionsEnabled hs then [IsExpressionsEnabled_call]
             else [IsExpressionsEnabled_call,
                   WrapTransformData_call (Req_Context c) (v2_request c req None)])
          else
            GetDatasource_call n (SignedInUser c) (SkipCache c) #
            (case GetDatasource hs n (SignedInUser c) (SkipCache c) of
               Inl err \<Rightarrow> []
             | Inr d \<Rightarrow>
                 if \<not> list_all has_id rest then []
                 else if \<not> list_ex (names_expr hs) rest then
                   [HandleRequest_call (Req_Context c) (Some d) (v2_request c req (Some d))]
                 else if \<not> IsExpressionsEnabled hs then [IsExpressionsEnabled_call]
                 else [IsExpressionsEnabled_call,
                       WrapTransformData_call (Req_Context c) (v2_request c req (Some d))]))"
  using assms
  by (simp add: QueryMetricsV2_def v2_request_def names_expr_def Let_def split_beta
      v2_loop_tail_fst v2_loop_tail_calls v2_respond_eq split: sum.splits)

lemma v2_direct_fst:
  assumes "dto_Queries req = q # rest"
    and "Int64 (Get q ''datasourceId'') = Inr n"
    and "GetDatasource hs n (SignedInUser c) (SkipCache c) = Inr d"
    and "list_all has_id rest"
    and "\<not> list_ex (names_expr hs) (q # rest)"
  shows "fst (QueryMetricsV2 hs c req w) =
     (case tsdb_HandleRequest hs (Req_Context c) (Some d) (v2_request c req (Some d)) of
        Inl err \<Rightarrow> Error 500 ''Metric request error'' (Some err)
      | Inr resp \<Rightarrow> fst (v2_respond resp w))"
  using assms(2-5) by (simp add: v2_closed_fst [OF assms(1)])

lemma v2_first_calls:
  assumes "dto_Queries req = q # rest"
    and "Int64 (Get q ''datasourceId'') = Inr n"
    and "\<not> list_ex (names_expr hs) (q # rest)"
  shows "calls (snd (QueryMetricsV2 hs c req w)) =
     calls w @ GetDatasource_call n (SignedInUser c) (SkipCache c) #
       (case GetDatasource hs n (SignedInUser c) (SkipCache c) of
          Inl err \<Rightarrow> []
        | Inr d \<Rightarrow>
            if list_all has_id rest
            then [HandleRequest_call (Req_Context c) (Some d) (v2_request c req (Some d))]
            else [])"
  using assms(2-3) by (simp add: v2_closed_calls [OF assms(1)] split: sum.splits)

lemma legacy_dispatch:
  assumes "dto_Queries req = q # rest"
    and "Int64 (Get q ''datasourceId'') = Inr n"
    and "GetDatasource hs n (SignedInUser c) (SkipCache c) = Inr d"
  shows "QueryMetrics hs c req w =
     (case tsdb_HandleRequest hs (Req_Context c) (Some d) (legacy_request c req (Some d)) of
        Inl err \<Rightarrow>
          (Error 500 ''Metric request error'' (Some err),
           w\<lparr>calls := calls w @
              [GetDatasource_call n (SignedInUser c) (SkipCache c),
               HandleRequest_call (Req_Context c) (Some d) (legacy_request c req (Some d))]\<rparr>)
      | Inr resp \<Rightarrow>
          (JSON (if list_ex has_error (Results resp) then 400 else 200)
             (TsdbBody (aggregated (next_order w resp) resp)),
           w\<lparr>calls := calls w @
              [GetDatasource_call n (SignedInUser c) (SkipCache c),
               HandleRequest_call (Req_Context c) (Some d) (legacy_request c req (Some d))],
             ranges := Suc (ranges w)\<rparr>))"
  using assms
  by (simp add: QueryMetrics_def legacy_request_def Let_def legacy_loop_eq aggregate_eq invoke_def
      next_order_def split: sum.splits)

lemma legacy_first_calls:
  assumes "dto_Queries req = q # rest"
    and "Int64 (Get q ''datasourceId'') = Inr n"
  shows "calls (snd (QueryMetrics hs c req w)) =
     calls w @ GetDatasource_call n (SignedInUser c) (SkipCache c) #
       (case GetDatasource hs n (SignedInUser c) (SkipCache c) of
          Inl err \<Rightarrow> []
        | Inr d \<Rightarrow> [HandleRequest_call (Req_Context c) (Some d) (legacy_request c req (Some d))])"
  using assms
  by (simp add: QueryMetrics_def legacy_request_def Let_def legacy_loop_eq split_beta
      aggregate_eq split: sum.splits)

lemma attached_v2: "list_all (\<lambda>x. DataSource x = ds) (Queries (v2_request c req ds))"
  by (simp add: v2_request_def v2_query_def list_all_iff)

lemma attached_legacy: "list_all (\<lambda>x. DataSource x = ds) (Queries (legacy_request c req ds))"
  by (simp add: legacy_request_def legacy_query_def list_all_iff)




lemma missing_rest:
  assumes "list_ex (\<lambda>q. \<not> has_id q) (q # rest)" and "Int64 (Get q ''datasourceId'') = Inr n"
  shows "\<not> list_all has_id rest"
  using assms by (auto simp: has_id_def list_ex_iff list_all_iff)

lemma v2_resolution_failure:
  assumes "dto_Queries req = q # rest"
    and "Int64 (Get q ''datasourceId'') = Inr n"
    and "\<not> names_expr hs q"
    and "GetDatasource hs n (SignedInUser c) (SkipCache c) = Inl err"
  shows "fst (QueryMetricsV2 hs c req w) =
      (if errors_Is err ErrDataSourceAccessDenied then
         Error 403 ''Access denied to data source'' (Some err)
       else if errors_Is err ErrDataSourceNotFound then
         Error 400 ''Invalid data source ID'' (Some err)
       else Error 500 ''Unable to load data source metadata'' (Some err))
    \<and> calls (snd (QueryMetricsV2 hs c req w)) =
        calls w @ [GetDatasource_call n (SignedInUser c) (SkipCache c)]"
  using assms by (simp add: v2_closed_fst [OF assms(1)] v2_closed_calls [OF assms(1)])

lemma legacy_resolution_failure:
  assumes "dto_Queries req = q # rest"
    and "Int64 (Get q ''datasourceId'') = Inr n"
    and "GetDatasource hs n (SignedInUser c) (SkipCache c) = Inl err"
  shows "QueryMetrics hs c req w =
      (if errors_Is err ErrDataSourceAccessDenied then
         Error 403 ''Access denied to datasource'' (Some err)
       else Error 500 ''Unable to load datasource meta data'' (Some err),
       w\<lparr>calls := calls w @ [GetDatasource_call n (SignedInUser c) (SkipCache c)]\<rparr>)"
  using assms by (simp add: QueryMetrics_def invoke_def)

subsection \<open>QueryMetrics in closed form\<close>


subsection \<open>What of a response depends on the order of the map iteration\<close>

lemma v2_respond_without_message:
  "without_message (fst (v2_respond resp w)) = without_message (fst (v2_respond resp w'))"
  by (simp add: v2_respond_eq aggregated_without_message)

lemma v2_respond_same_order:
  "map_seeds w (ranges w) = map_seeds w' (ranges w') \<Longrightarrow>
   fst (v2_respond resp w) = fst (v2_respond resp w')"
  by (simp add: v2_respond_eq next_order_def)








subsection \<open>The example responses, aggregated\<close>

lemma example_has_error: "list_ex has_error (Results example_response)"
  by code_simp

lemma example_forward:
  "aggregated (visit_order [] (length (Results example_response))) example_response =
     \<lparr>Results =
        [(''A'', \<lparr>res_Error = Some (GoError ''first failure'' None), ErrorString = ''first failure'', Payload = []\<rparr>),
         (''B'', \<lparr>res_Error = None, ErrorString = [], Payload = ''series''\<rparr>),
         (''C'', \<lparr>res_Error = Some (GoError ''last failure'' None), ErrorString = ''last failure'', Payload = []\<rparr>)],
      Message = ''last failure''\<rparr>"
  by code_simp

lemma example_reversed:
  "aggregated (visit_order [5, 3] (length (Results example_response))) example_response =
     \<lparr>Results =
        [(''A'', \<lparr>res_Error = Some (GoError ''first failure'' None), ErrorString = ''first failure'', Payload = []\<rparr>),
         (''B'', \<lparr>res_Error = None, ErrorString = [], Payload = ''series''\<rparr>),
         (''C'', \<lparr>res_Error = Some (GoError ''last failure'' None), ErrorString = ''last failure'', Payload = []\<rparr>)],
      Message = ''first failure''\<rparr>"
  by code_simp

lemma healthy_aggregated: "aggregated order healthy_response = healthy_response"
  by (simp add: aggregated_def healthy_response_def has_error_def stringified_def)

lemma healthy_no_error: "\<not> list_ex has_error (Results healthy_response)"
  by (simp add: healthy_response_def has_error_def)


section \<open>The claims\<close>

text \<open>
  Claim C1, amended. For every direct batch whose backend call succeeds, the response
  status is 200 when no result carries an error and 400 otherwise, and every erroring
  result has its error text in its \<open>ErrorString\<close>; when some result carries an error,
  the message of the envelope is the error text of the last erroring result in the order
  in which the \<open>range\<close> over \<open>resp.Results\<close> visits the results in that run. That
  order visits every result once and is the runtime's choice, not the order of the
  sub-queries; the message is the error text of one of the erroring results. The batch
  has first sub-query \<open>q\<close> with identifier \<open>n\<close>, resolved to \<open>d\<close>; for
  \<open>QueryMetricsV2\<close> it is direct (no sub-query names the expression engine) and
  every sub-query carries an identifier; the executor returns \<open>resp\<close> for the
  dispatched request.
\<close>

theorem C1_aggregate_status:
  assumes "dto_Queries req = q # rest"
    and "Int64 (Get q ''datasourceId'') = Inr n"
    and "GetDatasource hs n (SignedInUser c) (SkipCache c) = Inr d"
  shows "(list_all has_id rest \<and> \<not> list_ex (names_expr hs) (q # rest)
          \<and> tsdb_HandleRequest hs (Req_Context c) (Some d) (v2_request c req (Some d)) = Inr resp
          \<longrightarrow> fst (QueryMetricsV2 hs c req w) =
                jsonStreaming (if list_ex has_error (Results resp) then 400 else 200)
                  (TsdbBody (resp\<lparr>Results := map stringified (Results resp),
                     Message := (if list_ex has_error (Results resp)
                                 then error_text_of
                                        (Results resp !
                                         last (filter (\<lambda>i. has_error (Results resp ! i))
                                                 (next_order w resp)))
                                 else Message resp)\<rparr>)))
       \<and> (tsdb_HandleRequest hs (Req_Context c) (Some d) (legacy_request c req (Some d)) = Inr resp
          \<longrightarrow> fst (QueryMetrics hs c req w) =
                JSON (if list_ex has_error (Results resp) then 400 else 200)
                  (TsdbBody (resp\<lparr>Results := map stringified (Results resp),
                     Message := (if list_ex has_error (Results resp)
                                 then error_text_of
                                        (Results resp !
                                         last (filter (\<lambda>i. has_error (Results resp ! i))
                                                 (next_order w resp)))
                                 else Message resp)\<rparr>)))
       \<and> set (next_order w resp) = {..<length (Results resp)}
       \<and> distinct (next_order w resp)
       \<and> (list_ex has_error (Results resp)
          \<longrightarrow> Results resp ! last (filter (\<lambda>i. has_error (Results resp ! i)) (next_order w resp))
              \<in> set (filter has_error (Results resp)))"
proof (intro conjI impI)
  assume a: "list_all has_id rest \<and> \<not> list_ex (names_expr hs) (q # rest)
      \<and> tsdb_HandleRequest hs (Req_Context c) (Some d) (v2_request c req (Some d)) = Inr resp"
  then have "fst (QueryMetricsV2 hs c req w) = fst (v2_respond resp w)"
    using v2_direct_fst [OF assms, where w = w] by simp
  then show "fst (QueryMetricsV2 hs c req w) =
      jsonStreaming (if list_ex has_error (Results resp) then 400 else 200)
        (TsdbBody (resp\<lparr>Results := map stringified (Results resp),
           Message := (if list_ex has_error (Results resp)
                       then error_text_of
                              (Results resp !
                               last (filter (\<lambda>i. has_error (Results resp ! i)) (next_order w resp)))
                       else Message resp)\<rparr>))"
    by (simp add: v2_respond_eq aggregated_def)
next
  assume "tsdb_HandleRequest hs (Req_Context c) (Some d) (legacy_request c req (Some d)) = Inr resp"
  then show "fst (QueryMetrics hs c req w) =
      JSON (if list_ex has_error (Results resp) then 400 else 200)
        (TsdbBody (resp\<lparr>Results := map stringified (Results resp),
           Message := (if list_ex has_error (Results resp)
                       then error_text_of
                              (Results resp !
                               last (filter (\<lambda>i. has_error (Results resp ! i)) (next_order w resp)))
                       else Message resp)\<rparr>))"
    using legacy_dispatch [OF assms, where w = w] by (simp add: aggregated_def)
next
  show "set (next_order w resp) = {..<length (Results resp)}" by (rule set_next_order)
next
  show "distinct (next_order w resp)" by (rule distinct_next_order)
next
  assume "list_ex has_error (Results resp)"
  then show "Results resp ! last (filter (\<lambda>i. has_error (Results resp ! i)) (next_order w resp))
      \<in> set (filter has_error (Results resp))"
    by (rule last_error_visited)
qed

text \<open>
  The amended C1 at the example batch: three results, the first and the last with an
  error. Visited in storage order the message is that of the last one; visited in
  reverse it is that of the first one.
\<close>

theorem C1_aggregate_status_witness:
  "fst (QueryMetricsV2 example_server example_context (example_request [query_A, query_B, query_C]) example_world)
     = jsonStreaming 400 (TsdbBody
        \<lparr>Results =
           [(''A'', \<lparr>res_Error = Some (GoError ''first failure'' None), ErrorString = ''first failure'', Payload = []\<rparr>),
            (''B'', \<lparr>res_Error = None, ErrorString = [], Payload = ''series''\<rparr>),
            (''C'', \<lparr>res_Error = Some (GoError ''last failure'' None), ErrorString = ''last failure'', Payload = []\<rparr>)],
         Message = ''last failure''\<rparr>)
   \<and> fst (QueryMetrics example_server example_context (example_request [query_A, query_B, query_C]) reversed_world)
     = JSON 400 (TsdbBody
        \<lparr>Results =
           [(''A'', \<lparr>res_Error = Some (GoError ''first failure'' None), ErrorString = ''first failure'', Payload = []\<rparr>),
            (''B'', \<lparr>res_Error = None, ErrorString = [], Payload = ''series''\<rparr>),
            (''C'', \<lparr>res_Error = Some (GoError ''last failure'' None), ErrorString = ''last failure'', Payload = []\<rparr>)],
         Message = ''first failure''\<rparr>)"
proof -
  have h1: "dto_Queries (example_request [query_A, query_B, query_C]) = query_A # [query_B, query_C]"
    by (simp add: example_request_def)
  have h2: "Int64 (Get query_A ''datasourceId'') = Inr 1"
    by (simp add: query_A_def)
  have h3: "GetDatasource example_server 1 (SignedInUser example_context) (SkipCache example_context)
      = Inr example_ds"
    by (simp add: example_server_def)
  show ?thesis
    using C1_aggregate_status [OF h1 h2 h3, of example_response example_world, folded aggregated_def]
      C1_aggregate_status [OF h1 h2 h3, of example_response reversed_world, folded aggregated_def]
    by (simp add: example_has_error example_forward example_reversed next_order_def
        example_server_def example_context_def example_world_def reversed_world_def query_A_def
        query_B_def query_C_def example_request_def has_id_def names_expr_def)
qed

text \<open>
  C1 as stated fails: for the sub-queries A, B, C the erroring results are A and C, and
  the last of them in the order of the sub-queries is C with "last failure"; when the
  runtime visits the map in the order C, B, A the message is "first failure".
\<close>

theorem C1_as_stated_counterexample:
  "map RefId (Queries (v2_request example_context (example_request [query_A, query_B, query_C]) None))
     = [''A'', ''B'', ''C'']
   \<and> map fst (filter has_error (Results example_response)) = [''A'', ''C'']
   \<and> error_text_of (last (filter has_error (Results example_response))) = ''last failure''
   \<and> fst (QueryMetricsV2 example_server example_context (example_request [query_A, query_B, query_C]) reversed_world)
     = jsonStreaming 400 (TsdbBody
        \<lparr>Results =
           [(''A'', \<lparr>res_Error = Some (GoError ''first failure'' None), ErrorString = ''first failure'', Payload = []\<rparr>),
            (''B'', \<lparr>res_Error = None, ErrorString = [], Payload = ''series''\<rparr>),
            (''C'', \<lparr>res_Error = Some (GoError ''last failure'' None), ErrorString = ''last failure'', Payload = []\<rparr>)],
         Message = ''first failure''\<rparr>)"
proof -
  have a: "map RefId (Queries (v2_request example_context (example_request [query_A, query_B, query_C]) None))
     = [''A'', ''B'', ''C'']"
    by (simp add: v2_request_def v2_query_def example_request_def query_A_def query_B_def query_C_def)
  have b: "map fst (filter has_error (Results example_response)) = [''A'', ''C'']"
    by code_simp
  have c: "error_text_of (last (filter has_error (Results example_response))) = ''last failure''"
    by code_simp
  have h1: "dto_Queries (example_request [query_A, query_B, query_C]) = query_A # [query_B, query_C]"
    by (simp add: example_request_def)
  have h2: "Int64 (Get query_A ''datasourceId'') = Inr 1"
    by (simp add: query_A_def)
  have h3: "GetDatasource example_server 1 (SignedInUser example_context) (SkipCache example_context)
      = Inr example_ds"
    by (simp add: example_server_def)
  have h4: "list_all has_id [query_B, query_C]"
    by (simp add: has_id_def query_B_def query_C_def)
  have h5: "\<not> list_ex (names_expr example_server) (query_A # [query_B, query_C])"
    by (simp add: names_expr_def example_server_def query_A_def query_B_def query_C_def)
  have d: "fst (QueryMetricsV2 example_server example_context (example_request [query_A, query_B, query_C]) reversed_world)
     = jsonStreaming 400 (TsdbBody
        \<lparr>Results =
           [(''A'', \<lparr>res_Error = Some (GoError ''first failure'' None), ErrorString = ''first failure'', Payload = []\<rparr>),
            (''B'', \<lparr>res_Error = None, ErrorString = [], Payload = ''series''\<rparr>),
            (''C'', \<lparr>res_Error = Some (GoError ''last failure'' None), ErrorString = ''last failure'', Payload = []\<rparr>)],
         Message = ''first failure''\<rparr>)"
    using v2_direct_fst [OF h1 h2 h3 h4 h5, of reversed_world]
    by (simp add: v2_respond_eq example_has_error example_reversed next_order_def
        example_server_def reversed_world_def)
  show ?thesis using a b c d by simp
qed

text \<open>
  Claim C2 (resolution failures are classified 403, 400, 500 by both entry points) at a
  data source the cache does not find: \<open>QueryMetrics\<close> answers 500 where
  \<open>QueryMetricsV2\<close> answers 400. The lemmas \<open>v2_resolution_failure\<close> and
  \<open>legacy_resolution_failure\<close> above give both classifications for every error, with
  the resolver call as the only call made.
\<close>

theorem C2_legacy_not_found_is_500:
  "GetDatasource example_server 3 (SignedInUser example_context) (SkipCache example_context)
     = Inl (GoError ''not found'' (Some ErrDataSourceNotFound))
   \<and> errors_Is (GoError ''not found'' (Some ErrDataSourceNotFound)) ErrDataSourceNotFound
   \<and> QueryMetrics example_server example_context (example_request [query_unknown]) example_world
     = (Error 500 ''Unable to load datasource meta data'' (Some (GoError ''not found'' (Some ErrDataSourceNotFound))),
        example_world\<lparr>calls := [GetDatasource_call 3 ''admin'' False]\<rparr>)
   \<and> fst (QueryMetricsV2 example_server example_context (example_request [query_unknown]) example_world)
     = Error 400 ''Invalid data source ID'' (Some (GoError ''not found'' (Some ErrDataSourceNotFound)))"
  by (simp add: example_ds_def example_response_def example_server_def example_context_def
      example_world_def query_unknown_def example_request_def QueryMetrics_def
      QueryMetricsV2_def errors_Is_def time_Now_def log_Debug_def invoke_def)

text \<open>
  Claim C3, amended. For every direct batch whose first sub-query \<open>q\<close> carries a
  data-source identifier \<open>n\<close>, either entry point invokes the resolver exactly once,
  with \<open>n\<close>, whatever the number of sub-queries, and the request it dispatches, if it
  dispatches one, carries the one resolved data source in every sub-query. The calls a
  handler adds are the resolver call, followed by the executor call when the resolution
  succeeds (and, for \<open>QueryMetricsV2\<close>, every later sub-query carries an
  identifier).
\<close>

theorem C3_single_resolution:
  assumes "dto_Queries req = q # rest"
    and "Int64 (Get q ''datasourceId'') = Inr n"
  shows "(\<not> list_ex (names_expr hs) (q # rest) \<longrightarrow>
            calls (snd (QueryMetricsV2 hs c req w)) =
              calls w @ GetDatasource_call n (SignedInUser c) (SkipCache c) #
                (case GetDatasource hs n (SignedInUser c) (SkipCache c) of
                   Inl err \<Rightarrow> []
                 | Inr d \<Rightarrow>
                     if list_all has_id rest
                     then [HandleRequest_call (Req_Context c) (Some d) (v2_request c req (Some d))]
                     else []))
       \<and> calls (snd (QueryMetrics hs c req w)) =
              calls w @ GetDatasource_call n (SignedInUser c) (SkipCache c) #
                (case GetDatasource hs n (SignedInUser c) (SkipCache c) of
                   Inl err \<Rightarrow> []
                 | Inr d \<Rightarrow> [HandleRequest_call (Req_Context c) (Some d) (legacy_request c req (Some d))])
       \<and> (\<not> list_ex (names_expr hs) (q # rest) \<longrightarrow>
            filter is_resolver_call (calls (snd (QueryMetricsV2 hs c req w))) =
              filter is_resolver_call (calls w) @ [GetDatasource_call n (SignedInUser c) (SkipCache c)])
       \<and> filter is_resolver_call (calls (snd (QueryMetrics hs c req w))) =
              filter is_resolver_call (calls w) @ [GetDatasource_call n (SignedInUser c) (SkipCache c)]
       \<and> list_all (\<lambda>x. DataSource x = ds) (Queries (v2_request c req ds))
       \<and> list_all (\<lambda>x. DataSource x = ds) (Queries (legacy_request c req ds))
       \<and> length (Queries (v2_request c req ds)) = length (dto_Queries req)
       \<and> length (Queries (legacy_request c req ds)) = length (dto_Queries req)"
proof -
  have v2: "\<not> list_ex (names_expr hs) (q # rest) \<Longrightarrow>
      calls (snd (QueryMetricsV2 hs c req w)) =
        calls w @ GetDatasource_call n (SignedInUser c) (SkipCache c) #
          (case GetDatasource hs n (SignedInUser c) (SkipCache c) of
             Inl err \<Rightarrow> []
           | Inr d \<Rightarrow>
               if list_all has_id rest
               then [HandleRequest_call (Req_Context c) (Some d) (v2_request c req (Some d))]
               else [])"
    using v2_first_calls [OF assms] by simp
  have legacy: "calls (snd (QueryMetrics hs c req w)) =
        calls w @ GetDatasource_call n (SignedInUser c) (SkipCache c) #
          (case GetDatasource hs n (SignedInUser c) (SkipCache c) of
             Inl err \<Rightarrow> []
           | Inr d \<Rightarrow> [HandleRequest_call (Req_Context c) (Some d) (legacy_request c req (Some d))])"
    using legacy_first_calls [OF assms] by simp
  have v2_once: "\<not> list_ex (names_expr hs) (q # rest) \<Longrightarrow>
      filter is_resolver_call (calls (snd (QueryMetricsV2 hs c req w))) =
        filter is_resolver_call (calls w) @ [GetDatasource_call n (SignedInUser c) (SkipCache c)]"
    by (simp add: v2 split: sum.splits)
  have legacy_once: "filter is_resolver_call (calls (snd (QueryMetrics hs c req w))) =
        filter is_resolver_call (calls w) @ [GetDatasource_call n (SignedInUser c) (SkipCache c)]"
    by (simp add: legacy split: sum.splits)
  have len: "length (Queries (v2_request c req ds)) = length (dto_Queries req)"
      "length (Queries (legacy_request c req ds)) = length (dto_Queries req)"
    by (simp_all add: v2_request_def legacy_request_def)
  show ?thesis
    using v2 legacy v2_once legacy_once len attached_v2 attached_legacy by blast
qed

text \<open>C3 at a batch of two sub-queries with different identifiers.\<close>

theorem C3_single_resolution_witness:
  "calls (snd (QueryMetricsV2 example_server example_context (example_request [query_A, query_B]) example_world))
     = [GetDatasource_call 1 ''admin'' False,
        HandleRequest_call ''ctx'' (Some example_ds)
          (v2_request example_context (example_request [query_A, query_B]) (Some example_ds))]
   \<and> calls (snd (QueryMetrics example_server example_context (example_request [query_A, query_B]) example_world))
     = [GetDatasource_call 1 ''admin'' False,
        HandleRequest_call ''ctx'' (Some example_ds)
          (legacy_request example_context (example_request [query_A, query_B]) (Some example_ds))]
   \<and> map DataSource (Queries (v2_request example_context (example_request [query_A, query_B]) (Some example_ds)))
     = [Some example_ds, Some example_ds]"
proof -
  have h1: "dto_Queries (example_request [query_A, query_B]) = query_A # [query_B]"
    by (simp add: example_request_def)
  have h2: "Int64 (Get query_A ''datasourceId'') = Inr 1"
    by (simp add: query_A_def)
  show ?thesis
    using C3_single_resolution [OF h1 h2, of example_server example_context example_world "Some example_ds"]
    by (simp add: example_server_def example_context_def example_world_def query_A_def query_B_def
        has_id_def names_expr_def v2_request_def v2_query_def example_request_def)
qed

text \<open>
  C3 as stated fails: a direct batch whose first sub-query has no data-source identifier
  is answered 400 before any resolution, so the resolver is invoked zero times by either
  entry point.
\<close>

theorem C3_as_stated_counterexample:
  "\<not> names_expr example_server query_no_id
   \<and> \<not> names_expr example_server query_A
   \<and> fst (QueryMetricsV2 example_server example_context (example_request [query_no_id, query_A]) example_world)
     = Error 400 ''Query missing data source ID'' None
   \<and> calls (snd (QueryMetricsV2 example_server example_context
        (example_request [query_no_id, query_A]) example_world)) = []
   \<and> QueryMetrics example_server example_context (example_request [query_no_id, query_A]) example_world
     = (Error 400 ''Query missing datasourceId'' None, example_world)
   \<and> calls example_world = []"
  by (simp add: names_expr_def example_server_def example_context_def example_world_def
      query_no_id_def query_A_def example_request_def QueryMetricsV2_def QueryMetrics_def
      time_Now_def log_Debug_def)

text \<open>
  Claim C4, amended. For every batch containing a sub-query without a data-source
  identifier: \<open>QueryMetricsV2\<close> invokes neither the time-series executor nor the
  expression evaluator, and it returns the 400 error "Query missing data source ID"
  unless the resolution of the first sub-query's data source was attempted and failed
  before the missing identifier was reached; \<open>QueryMetrics\<close> reads the identifier of
  the first sub-query only, and when that one is missing it returns the 400 error "Query
  missing datasourceId" and calls nothing.
\<close>

theorem C4_missing_identifier:
  assumes "list_ex (\<lambda>q. \<not> has_id q) (dto_Queries req)"
  shows "filter is_backend_call (calls (snd (QueryMetricsV2 hs c req w))) = filter is_backend_call (calls w)
       \<and> (\<not> resolution_fails hs c (hd (dto_Queries req))
          \<longrightarrow> fst (QueryMetricsV2 hs c req w) = Error 400 ''Query missing data source ID'' None)
       \<and> (\<not> has_id (hd (dto_Queries req))
          \<longrightarrow> QueryMetrics hs c req w = (Error 400 ''Query missing datasourceId'' None, w))"
proof -
  obtain q rest where qs: "dto_Queries req = q # rest"
    using assms by (cases "dto_Queries req") auto
  have l: "\<not> has_id q \<Longrightarrow> QueryMetrics hs c req w = (Error 400 ''Query missing datasourceId'' None, w)"
    by (simp add: QueryMetrics_def qs has_id_def split: sum.splits)
  have v2: "filter is_backend_call (calls (snd (QueryMetricsV2 hs c req w))) = filter is_backend_call (calls w)
      \<and> (\<not> resolution_fails hs c q
          \<longrightarrow> fst (QueryMetricsV2 hs c req w) = Error 400 ''Query missing data source ID'' None)"
  proof (cases "Int64 (Get q ''datasourceId'')")
    case (Inl e)
    then show ?thesis
      by (simp add: v2_closed_fst [OF qs] v2_closed_calls [OF qs])
  next
    case (Inr n)
    have "\<not> list_all has_id rest"
      using missing_rest [OF _ Inr] assms qs by simp
    then show ?thesis using Inr
      by (simp add: v2_closed_fst [OF qs] v2_closed_calls [OF qs] resolution_fails_def
          split: sum.splits)
  qed
  show ?thesis using v2 l by (simp add: qs)
qed

text \<open>
  The amended C4 at a batch whose second sub-query has no identifier (current entry
  point) and at one whose first sub-query has none (legacy entry point).
\<close>

theorem C4_missing_identifier_witness:
  "fst (QueryMetricsV2 example_server example_context (example_request [query_A, query_no_id]) example_world)
     = Error 400 ''Query missing data source ID'' None
   \<and> calls (snd (QueryMetricsV2 example_server example_context (example_request [query_A, query_no_id]) example_world))
     = [GetDatasource_call 1 ''admin'' False]
   \<and> QueryMetrics example_server example_context (example_request [query_no_id, query_A]) example_world
     = (Error 400 ''Query missing datasourceId'' None, example_world)"
proof -
  have h1: "list_ex (\<lambda>q. \<not> has_id q) (dto_Queries (example_request [query_A, query_no_id]))"
    by (simp add: example_request_def has_id_def query_no_id_def)
  have h2: "list_ex (\<lambda>q. \<not> has_id q) (dto_Queries (example_request [query_no_id, query_A]))"
    by (simp add: example_request_def has_id_def query_no_id_def)
  have c: "calls (snd (QueryMetricsV2 example_server example_context (example_request [query_A, query_no_id]) example_world))
     = [GetDatasource_call 1 ''admin'' False]"
    by (simp add: example_ds_def example_response_def example_server_def example_context_def
        example_world_def query_A_def query_no_id_def example_request_def QueryMetricsV2_def
        time_Now_def log_Debug_def invoke_def)
  show ?thesis
    using C4_missing_identifier [OF h1, of example_server example_context example_world]
      C4_missing_identifier [OF h2, of example_server example_context example_world] c
    by (simp add: example_ds_def example_response_def example_server_def example_context_def
        example_world_def query_A_def query_no_id_def example_request_def
        resolution_fails_def names_expr_def has_id_def)
qed

text \<open>
  C4 as stated fails: the legacy entry point dispatches a batch whose second sub-query has
  no identifier and answers 200, and the current entry point answers 403 when the first
  sub-query's data source is denied before the missing identifier is reached.
\<close>

theorem C4_as_stated_counterexample:
  "\<not> has_id query_no_id
   \<and> QueryMetrics healthy_server example_context (example_request [query_A, query_no_id]) example_world
     = (JSON 200 (TsdbBody healthy_response),
        example_world\<lparr>calls :=
          [GetDatasource_call 1 ''admin'' False,
           HandleRequest_call ''ctx'' (Some example_ds)
             (legacy_request example_context (example_request [query_A, query_no_id]) (Some example_ds))],
          ranges := 1\<rparr>)
   \<and> fst (QueryMetricsV2 example_server example_context (example_request [query_denied, query_no_id]) example_world)
     = Error 403 ''Access denied to data source'' (Some (GoError ''access denied'' (Some ErrDataSourceAccessDenied)))"
proof -
  have a: "\<not> has_id query_no_id"
    by (simp add: has_id_def query_no_id_def)
  have h1: "dto_Queries (example_request [query_A, query_no_id]) = query_A # [query_no_id]"
    by (simp add: example_request_def)
  have h2: "Int64 (Get query_A ''datasourceId'') = Inr 1"
    by (simp add: query_A_def)
  have h3: "GetDatasource healthy_server 1 (SignedInUser example_context) (SkipCache example_context)
      = Inr example_ds"
    by (simp add: healthy_server_def example_server_def)
  have b: "QueryMetrics healthy_server example_context (example_request [query_A, query_no_id]) example_world
     = (JSON 200 (TsdbBody healthy_response),
        example_world\<lparr>calls :=
          [GetDatasource_call 1 ''admin'' False,
           HandleRequest_call ''ctx'' (Some example_ds)
             (legacy_request example_context (example_request [query_A, query_no_id]) (Some example_ds))],
          ranges := 1\<rparr>)"
    using legacy_dispatch [OF h1 h2 h3, of example_world]
    by (simp add: healthy_aggregated healthy_no_error healthy_server_def example_server_def
        example_context_def example_world_def)
  have c: "fst (QueryMetricsV2 example_server example_context (example_request [query_denied, query_no_id]) example_world)
     = Error 403 ''Access denied to data source'' (Some (GoError ''access denied'' (Some ErrDataSourceAccessDenied)))"
    by (simp add: example_server_def example_context_def example_world_def query_denied_def
        query_no_id_def example_request_def QueryMetricsV2_def errors_Is_def
        time_Now_def log_Debug_def invoke_def)
  show ?thesis using a b c by simp
qed

text \<open>
  Claim C5 (an expression batch never reaches the resolver) at a batch whose second
  sub-query names the expression engine: the guard \<open>i == 0 && !hasExpr\<close> is evaluated
  when \<open>hasExpr\<close> has seen the first sub-query only, so the resolver is called with
  the first sub-query's identifier, and its failure decides the response.
\<close>

theorem C5_resolver_called_in_expression_batch:
  "names_expr example_server query_expression
   \<and> calls (snd (QueryMetricsV2 example_server example_context
        (example_request [query_A, query_expression]) example_world))
     = [GetDatasource_call 1 ''admin'' False, IsExpressionsEnabled_call]
   \<and> fst (QueryMetricsV2 example_server example_context
        (example_request [query_denied, query_expression]) example_world)
     = Error 403 ''Access denied to data source'' (Some (GoError ''access denied'' (Some ErrDataSourceAccessDenied)))"
  by (simp add: example_ds_def example_response_def example_server_def example_context_def
      example_world_def query_A_def query_denied_def query_expression_def
      example_request_def names_expr_def QueryMetricsV2_def errors_Is_def time_Now_def
      time_Since_def fmt_Printf_def log_Debug_def invoke_def v2_query_def MustInt64_def)

text \<open>
  Claim C6, amended. For every expression batch handled by \<open>QueryMetricsV2\<close> while
  the expressions feature is disabled, neither the time-series executor nor the
  expression evaluator is invoked; and when every sub-query carries a data-source
  identifier and no data-source resolution fails, the response is the 404 error
  "Expressions feature toggle is not enabled".
\<close>

theorem C6_expressions_disabled:
  assumes "list_ex (names_expr hs) (dto_Queries req)" and "\<not> IsExpressionsEnabled hs"
  shows "filter is_backend_call (calls (snd (QueryMetricsV2 hs c req w))) = filter is_backend_call (calls w)
       \<and> (list_all has_id (dto_Queries req) \<and> \<not> resolution_fails hs c (hd (dto_Queries req))
          \<longrightarrow> fst (QueryMetricsV2 hs c req w) =
                Error 404 ''Expressions feature toggle is not enabled'' None)"
proof -
  obtain q rest where qs: "dto_Queries req = q # rest"
    using assms(1) by (cases "dto_Queries req") auto
  show ?thesis
  proof (cases "names_expr hs q")
    case True
    then show ?thesis using assms(2)
      by (simp add: v2_closed_fst [OF qs] v2_closed_calls [OF qs] qs has_id_def
          split: sum.splits)
  next
    case False
    then have "list_ex (names_expr hs) rest"
      using assms(1) qs by simp
    then show ?thesis using False assms(2)
      by (simp add: v2_closed_fst [OF qs] v2_closed_calls [OF qs] qs has_id_def
          resolution_fails_def split: sum.splits)
  qed
qed

text \<open>The amended C6 at a batch whose first sub-query names the expression engine.\<close>

theorem C6_expressions_disabled_witness:
  "fst (QueryMetricsV2 example_server example_context (example_request [query_expression, query_A]) example_world)
     = Error 404 ''Expressions feature toggle is not enabled'' None
   \<and> filter is_backend_call (calls (snd (QueryMetricsV2 example_server example_context
        (example_request [query_expression, query_A]) example_world))) = []"
proof -
  have h1: "list_ex (names_expr example_server) (dto_Queries (example_request [query_expression, query_A]))"
    by (simp add: example_request_def names_expr_def query_expression_def example_server_def)
  have h2: "\<not> IsExpressionsEnabled example_server"
    by (simp add: example_server_def)
  show ?thesis
    using C6_expressions_disabled [OF h1 h2, of example_context example_world]
    by (simp add: example_request_def example_world_def example_server_def query_expression_def
        query_A_def resolution_fails_def names_expr_def has_id_def)
qed

text \<open>
  C6 as stated fails: an expression batch whose sub-query has no data-source identifier is
  answered 400, not 404, with the feature disabled.
\<close>

theorem C6_as_stated_counterexample:
  "names_expr example_server expression_no_id
   \<and> \<not> IsExpressionsEnabled example_server
   \<and> fst (QueryMetricsV2 example_server example_context (example_request [expression_no_id]) example_world)
     = Error 400 ''Query missing data source ID'' None"
  by (simp add: example_ds_def example_response_def example_server_def example_context_def
      example_world_def expression_no_id_def example_request_def names_expr_def
      QueryMetricsV2_def time_Now_def log_Debug_def)

text \<open>
  Claim C7. For every batch with zero sub-queries, both entry points return the
  validation error with status 400 ("No queries found in query"), and they invoke no
  backend collaborator and no data-source resolution: the world they return is the world
  they were given, so nothing was called, logged or printed.
\<close>

theorem C7_empty_batch:
  assumes "dto_Queries req = []"
  shows "QueryMetricsV2 hs c req w = (Error 400 ''No queries found in query'' None, w)
       \<and> QueryMetrics hs c req w = (Error 400 ''No queries found in query'' None, w)"
  using assms by (simp add: QueryMetricsV2_def QueryMetrics_def)

text \<open>C7 at the empty example batch.\<close>

theorem C7_empty_batch_witness:
  "dto_Queries (example_request []) = []
   \<and> QueryMetricsV2 example_server example_context (example_request []) example_world
       = (Error 400 ''No queries found in query'' None, example_world)
   \<and> QueryMetrics example_server example_context (example_request []) example_world
       = (Error 400 ''No queries found in query'' None, example_world)"
proof -
  have h: "dto_Queries (example_request []) = []" by (simp add: example_request_def)
  show ?thesis using h C7_empty_batch [OF h, of example_server example_context example_world]
    by simp
qed






text \<open>
  Claim C10. The index access of \<open>GenerateError\<close>, position 20 of an empty array, is
  out of bounds on every invocation: the indexing returns \<open>None\<close>, the handler
  panics, and it never returns a response, in particular no 200 one.
\<close>

theorem C10_generate_error:
  "index_at ([] :: string list) 20 = None
   \<and> GenerateError c = Inl (index_out_of_range 20 0)
   \<and> (\<forall>r. GenerateError c \<noteq> Inr r)"
  by (simp add: GenerateError_def index_at_def)

end
